theory Spec2Isabelle
  imports Main
begin

section \<open>The image generator of graphic\_designer\_tool\<close>

text \<open>
  The development follows \<^verbatim>\<open>core/image_generator.py\<close> (class \<^verbatim>\<open>ImageGenerator\<close>) and
  the part of \<^verbatim>\<open>main.py\<close> that constructs the generator and hands its method to the
  user interface.  The three collaborators of the class (\<^verbatim>\<open>openai.images.generate\<close>,
  \<^verbatim>\<open>requests.get\<close> and \<^verbatim>\<open>PIL.Image.open\<close>) are not part of the repository; they are
  parameters of the model, collected in an environment, and may answer or raise as
  they like.
\<close>

subsection \<open>Data\<close>

text \<open>Python \<^verbatim>\<open>bytes\<close>: a sequence of 8-bit characters.\<close>

type_synonym bytes = "char list"

text \<open>
  Exceptions are values.  \<^verbatim>\<open>ValueError\<close> is raised by the constructor, \<^verbatim>\<open>IndexError\<close>
  by indexing a list out of range; \<open>Timeout\<close> (\<^verbatim>\<open>requests.exceptions.Timeout\<close>) and
  \<open>LibraryError\<close> (any other exception, by the name of its class) come from the
  collaborators.
\<close>

datatype error =
    ValueError string
  | IndexError string
  | Timeout
  | LibraryError string

text \<open>The attributes of an \<^verbatim>\<open>ImageGenerator\<close> object; \<^verbatim>\<open>n\<close> is a Python \<^verbatim>\<open>int\<close>.\<close>

record ImageGenerator =
  model :: string
  quality :: string
  n :: int
  dim :: string

text \<open>The keyword arguments of one call of \<^verbatim>\<open>openai.images.generate\<close>.\<close>

record generate_kwargs =
  kw_model :: string
  kw_prompt :: string
  kw_size :: string
  kw_quality :: string
  kw_n :: int

text \<open>
  One element of the \<^verbatim>\<open>.data\<close> list of the generation response (read through its
  \<^verbatim>\<open>url\<close> attribute only), and the response of \<^verbatim>\<open>requests.get\<close> (read through
  \<^verbatim>\<open>content\<close> only; \<^verbatim>\<open>status_code\<close> is there to show that the code never looks at it).
\<close>

record image_data =
  url :: string

record response =
  status_code :: nat
  content :: bytes

text \<open>
  Every call that leaves the class is logged: the generation request with its keyword
  arguments, the download with its URL and \<^verbatim>\<open>timeout\<close>, the decoding with the buffer
  it is given.
\<close>

datatype event =
    Generate generate_kwargs
  | Get string nat
  | Open_image bytes

text \<open>
  The collaborators.  The generation service and the image host are the network: what
  they answer may depend on everything that was asked before, so they take the log of
  the earlier calls.  Decoding is a function of the buffer.  Each of them returns
  either the exception it raises or its value.
\<close>

record 'img env =
  images_generate :: "event list \<Rightarrow> generate_kwargs \<Rightarrow> error + image_data list"
  requests_get :: "event list \<Rightarrow> string \<Rightarrow> nat \<Rightarrow> error + response"
  Image_open :: "bytes \<Rightarrow> error + 'img"

text \<open>
  The state a method runs in: the object it is called on and the log of the calls made
  so far.
\<close>

record state =
  self :: ImageGenerator
  calls :: "event list"

definition log_call :: "event \<Rightarrow> state \<Rightarrow> state" where
  "log_call ev s = s\<lparr>calls := calls s @ [ev]\<rparr>"

subsection \<open>The constructor\<close>

text \<open>
  \<^verbatim>\<open>__init__\<close> stores its four arguments and then raises \<^verbatim>\<open>ValueError\<close> unless
  \<^verbatim>\<open>dim\<close> is one of three literals.  The message of the error ends in a quote
  character, written \<open>CHR 0x27\<close> here.
\<close>

definition dim_message :: string where
  "dim_message = ''Dimension must be '1024x1024', '1024x1792' or '1792x1024'' @ [CHR 0x27]"

definition ImageGenerator_init ::
    "string \<Rightarrow> string \<Rightarrow> int \<Rightarrow> string \<Rightarrow> error + ImageGenerator" where
  "ImageGenerator_init model' quality' n' dim' =
     (let this = \<lparr>model = model', quality = quality', n = n', dim = dim'\<rparr> in
      if dim this \<notin> set [''1024x1024'', ''1024x1792'', ''1792x1024'']
      then Inl (ValueError dim_message)
      else Inr this)"

subsection \<open>The methods\<close>

text \<open>
  The keyword arguments \<^verbatim>\<open>generate_visual\<close> passes to the generation service: the
  prompt is the f-string of the source, the other four are attributes of the object.
\<close>

definition request_kwargs :: "ImageGenerator \<Rightarrow> string \<Rightarrow> generate_kwargs" where
  "request_kwargs this visual_description =
     \<lparr>kw_model = model this,
      kw_prompt = ''Create a visual following this description: '' @ visual_description,
      kw_size = dim this,
      kw_quality = quality this,
      kw_n = n this\<rparr>"

text \<open>
  \<^verbatim>\<open>generate_visual\<close>: one call of the generation service; the URLs of \<^verbatim>\<open>.data\<close> by a
  list comprehension.
\<close>

definition generate_visual ::
    "'img env \<Rightarrow> string \<Rightarrow> state \<Rightarrow> (error + string list) \<times> state" where
  "generate_visual env visual_description s =
     (let kwargs = request_kwargs (self s) visual_description
      in case images_generate env (calls s) kwargs of
           Inl e \<Rightarrow> (Inl e, log_call (Generate kwargs) s)
         | Inr responses \<Rightarrow> (Inr (map url responses), log_call (Generate kwargs) s))"

text \<open>\<^verbatim>\<open>get_image_from_url\<close>: \<^verbatim>\<open>requests.get(url, timeout=10).content\<close>.\<close>

definition get_image_from_url ::
    "'img env \<Rightarrow> string \<Rightarrow> state \<Rightarrow> (error + bytes) \<times> state" where
  "get_image_from_url env url' s =
     (case requests_get env (calls s) url' 10 of
        Inl e \<Rightarrow> (Inl e, log_call (Get url' 10) s)
      | Inr r \<Rightarrow> (Inr (content r), log_call (Get url' 10) s))"

text \<open>
  The \<^verbatim>\<open>for\<close> loop of \<^verbatim>\<open>get_images\<close>: it appends each downloaded buffer to
  \<^verbatim>\<open>images\<close>; an exception of a download leaves the loop.
\<close>

fun fetch_loop ::
    "'img env \<Rightarrow> string list \<Rightarrow> bytes list \<Rightarrow> state \<Rightarrow> (error + bytes list) \<times> state" where
  "fetch_loop env [] images s = (Inr images, s)"
| "fetch_loop env (image_url # rest) images s =
     (case get_image_from_url env image_url s of
        (Inl e, s') \<Rightarrow> (Inl e, s')
      | (Inr b, s') \<Rightarrow> fetch_loop env rest (images @ [b]) s')"

text \<open>
  \<^verbatim>\<open>get_images\<close>: the URLs, the loop, then \<^verbatim>\<open>Image.open(io.BytesIO(images[0]))\<close>.
  \<^verbatim>\<open>images[0]\<close> raises \<^verbatim>\<open>IndexError\<close> on the empty list, before anything is decoded.
\<close>

definition get_images ::
    "'img env \<Rightarrow> string \<Rightarrow> state \<Rightarrow> (error + 'img) \<times> state" where
  "get_images env visual_description s =
     (case generate_visual env visual_description s of
        (Inl e, s1) \<Rightarrow> (Inl e, s1)
      | (Inr generated_image_urls, s1) \<Rightarrow>
          (case fetch_loop env generated_image_urls [] s1 of
             (Inl e, s2) \<Rightarrow> (Inl e, s2)
           | (Inr images, s2) \<Rightarrow>
               (case images of
                  [] \<Rightarrow> (Inl (IndexError ''list index out of range''), s2)
                | b # _ \<Rightarrow> (Image_open env b, log_call (Open_image b) s2))))"

subsection \<open>The application\<close>

text \<open>
  \<^verbatim>\<open>main\<close> reads four parameters from the configuration (the loader is not part of
  the sources at hand, so the four values are the argument), constructs the generator
  and gives \<^verbatim>\<open>get_images\<close> to the user interface.  The interface calls it once for
  every description a user submits and shows the image or the error; \<open>serve\<close> does so
  for the list of the descriptions submitted.
\<close>

record params =
  n_image :: int
  image_dim :: string
  image_model :: string
  image_quality :: string

fun serve ::
    "'img env \<Rightarrow> string list \<Rightarrow> state \<Rightarrow> (error + 'img) list \<times> state" where
  "serve env [] s = ([], s)"
| "serve env (d # ds) s =
     (case get_images env d s of
        (r, s') \<Rightarrow> (case serve env ds s' of (rs, s'') \<Rightarrow> (r # rs, s'')))"

definition main ::
    "'img env \<Rightarrow> params \<Rightarrow> string list \<Rightarrow> (error + (error + 'img) list) \<times> event list" where
  "main env params' submitted =
     (case ImageGenerator_init (image_model params') (image_quality params')
             (n_image params') (image_dim params') of
        Inl e \<Rightarrow> (Inl e, [])
      | Inr image_generator \<Rightarrow>
          (case serve env submitted \<lparr>self = image_generator, calls = []\<rparr> of
             (shown, s) \<Rightarrow> (Inr shown, calls s)))"

subsection \<open>Vocabulary of the statements\<close>

text \<open>
  The log entries of downloading the given URLs one after the other, and what the image
  host answers when it is asked for them in that order after the calls \<open>h\<close>: each
  request is made with the log of all the requests before it.
\<close>

definition get_log :: "string list \<Rightarrow> event list" where
  "get_log urls = map (\<lambda>u. Get u 10) urls"

fun replies :: "'img env \<Rightarrow> event list \<Rightarrow> string list \<Rightarrow> (error + response) list" where
  "replies env h [] = []"
| "replies env h (u # us) = requests_get env h u 10 # replies env (h @ [Get u 10]) us"

text \<open>The buffers handed to the decoder, read off a log.\<close>

fun decoded :: "event list \<Rightarrow> bytes list" where
  "decoded [] = []"
| "decoded (Open_image b # es) = b # decoded es"
| "decoded (_ # es) = decoded es"

subsection \<open>Concrete collaborators\<close>

text \<open>
  The collaborators of the repository's tests: a generation service that answers with
  two URLs and an image host that answers every request.  Here the host sends \<open>X\<close>
  for the first URL and an error page, with status 404, for any other; decoding marks
  the buffer.  Three variants: the service is unreachable, the host times out on every
  URL but the first, the service answers with no image at all.
\<close>

definition image1 :: string where
  "image1 = ''https://example.com/image1.png''"

definition image2 :: string where
  "image2 = ''https://example.com/image2.png''"

definition mock_env :: "bytes env" where
  "mock_env =
     \<lparr>images_generate = (\<lambda>h kw. Inr [\<lparr>url = image1\<rparr>, \<lparr>url = image2\<rparr>]),
      requests_get =
        (\<lambda>h u t. if u = image1 then Inr \<lparr>status_code = 200, content = ''X''\<rparr>
                  else Inr \<lparr>status_code = 404, content = ''Not Found''\<rparr>),
      Image_open = (\<lambda>b. Inr (''decoded '' @ b))\<rparr>"

definition mock_env_api_down :: "bytes env" where
  "mock_env_api_down =
     mock_env\<lparr>images_generate := (\<lambda>h kw. Inl (LibraryError ''APIConnectionError''))\<rparr>"

definition mock_env_host_down :: "bytes env" where
  "mock_env_host_down =
     mock_env\<lparr>requests_get :=
        (\<lambda>h u t. if u = image1 then Inr \<lparr>status_code = 200, content = ''X''\<rparr>
                  else Inl Timeout)\<rparr>"

definition mock_env_no_image :: "bytes env" where
  "mock_env_no_image = mock_env\<lparr>images_generate := (\<lambda>h kw. Inr [])\<rparr>"

text \<open>
  A generation service that looks at what it is asked: it answers the first request of a
  session only if the keyword arguments are those of the generator of the tests and of
  one description, and rejects anything else.
\<close>

definition mock_env_strict :: "bytes env" where
  "mock_env_strict =
     mock_env\<lparr>images_generate :=
        (\<lambda>h kw. if h = [] \<and> kw = \<lparr>kw_model = ''dall-e'',
                     kw_prompt = ''Create a visual following this description: A futuristic cityscape'',
                     kw_size = ''1024x1024'',
                     kw_quality = ''high'',
                     kw_n = 2\<rparr>
                  then Inr [\<lparr>url = image1\<rparr>, \<lparr>url = image2\<rparr>]
                  else Inl (LibraryError ''BadRequestError''))\<rparr>"

text \<open>The generator of the tests, and the state before its first call.\<close>

definition generator :: ImageGenerator where
  "generator = \<lparr>model = ''dall-e'', quality = ''high'', n = 2, dim = ''1024x1024''\<rparr>"

definition fresh :: state where
  "fresh = \<lparr>self = generator, calls = []\<rparr>"

section \<open>Properties\<close>

subsection \<open>The log and the single steps\<close>

lemma calls_log_call [simp]: "calls (log_call ev s) = calls s @ [ev]"
  by (simp add: log_call_def)

lemma self_log_call [simp]: "self (log_call ev s) = self s"
  by (simp add: log_call_def)

lemma get_log_simps [simp]:
  "get_log [] = []"
  "get_log (u # us) = Get u 10 # get_log us"
  "get_log (us @ vs) = get_log us @ get_log vs"
  by (simp_all add: get_log_def)

lemma length_get_log [simp]: "length (get_log us) = length us"
  by (simp add: get_log_def)

lemma get_image_from_url_Inr:
  "requests_get env (calls s) u 10 = Inr r \<Longrightarrow>
     get_image_from_url env u s = (Inr (content r), log_call (Get u 10) s)"
  by (simp add: get_image_from_url_def)

lemma get_image_from_url_Inl:
  "requests_get env (calls s) u 10 = Inl e \<Longrightarrow>
     get_image_from_url env u s = (Inl e, log_call (Get u 10) s)"
  by (simp add: get_image_from_url_def)

lemma snd_get_image_from_url:
  "snd (get_image_from_url env u s) = log_call (Get u 10) s"
  by (simp add: get_image_from_url_def split: sum.splits)

lemma fetch_loop_all_answered:
  "replies env (calls s) urls = map Inr resps \<Longrightarrow>
     fetch_loop env urls images s =
       (Inr (images @ map content resps), s\<lparr>calls := calls s @ get_log urls\<rparr>)"
proof (induction urls arbitrary: images s resps)
  case Nil
  then show ?case by simp
next
  case (Cons u us)
  from Cons.prems obtain r rs where resps: "resps = r # rs"
    and r: "requests_get env (calls s) u 10 = Inr r"
    and rs: "replies env (calls s @ [Get u 10]) us = map Inr rs"
    by (cases resps) auto
  from rs have "replies env (calls (log_call (Get u 10) s)) us = map Inr rs"
    by simp
  from Cons.IH [OF this, of "images @ [content r]"] r resps
  show ?case
    by (simp add: get_image_from_url_Inr log_call_def)
qed

lemma fetch_loop_first_failure:
  "k < length urls \<Longrightarrow>
   replies env (calls s) (take k urls) = map Inr resps \<Longrightarrow>
   requests_get env (calls s @ get_log (take k urls)) (urls ! k) 10 = Inl e \<Longrightarrow>
     fetch_loop env urls images s =
       (Inl e, s\<lparr>calls := calls s @ get_log (take (Suc k) urls)\<rparr>)"
proof (induction urls arbitrary: k images s resps)
  case Nil
  then show ?case by simp
next
  case (Cons u us)
  show ?case
  proof (cases k)
    case 0
    with Cons.prems show ?thesis
      by (simp add: get_image_from_url_Inl log_call_def)
  next
    case (Suc j)
    with Cons.prems obtain r rs where resps: "resps = r # rs"
      and r: "requests_get env (calls s) u 10 = Inr r"
      and rs: "replies env (calls s @ [Get u 10]) (take j us) = map Inr rs"
      by (cases resps) auto
    let ?s = "log_call (Get u 10) s"
    from Suc Cons.prems have j: "j < length us" by simp
    from rs have rs': "replies env (calls ?s) (take j us) = map Inr rs" by simp
    from Suc Cons.prems
    have e: "requests_get env (calls ?s @ get_log (take j us)) (us ! j) 10 = Inl e"
      by simp
    from Cons.IH [OF j rs' e, of "images @ [content r]"] r Suc
    show ?thesis
      by (simp add: get_image_from_url_Inr log_call_def)
  qed
qed

lemma self_fetch_loop: "self (snd (fetch_loop env urls images s)) = self s"
proof (induction urls arbitrary: images s)
  case Nil
  then show ?case by simp
next
  case (Cons u us)
  show ?case
  proof (cases "get_image_from_url env u s")
    case (Pair res s')
    then have s': "s' = log_call (Get u 10) s"
      using snd_get_image_from_url [of env u s] by simp
    show ?thesis
      using Pair s' Cons.IH by (cases res) simp_all
  qed
qed

subsection \<open>The answers of the image host\<close>

lemma replies_nth:
  "i < length urls \<Longrightarrow>
     replies env h urls ! i = requests_get env (h @ get_log (take i urls)) (urls ! i) 10"
proof (induction urls arbitrary: h i)
  case Nil
  then show ?case by simp
next
  case (Cons u us)
  show ?case
  proof (cases i)
    case 0
    then show ?thesis by simp
  next
    case (Suc i')
    with Cons.prems have "i' < length us" by simp
    from Cons.IH [OF this, of "h @ [Get u 10]"] Suc show ?thesis by simp
  qed
qed

lemma length_replies [simp]: "length (replies env h urls) = length urls"
  by (induction urls arbitrary: h) simp_all

lemma replies_cases:
  "(\<exists>rs. replies env h urls = map Inr rs)
   \<or> (\<exists>i rs e. i < length urls
         \<and> replies env h (take i urls) = map Inr rs
         \<and> requests_get env (h @ get_log (take i urls)) (urls ! i) 10 = Inl e)"
proof (induction urls arbitrary: h)
  case Nil
  have "replies env h [] = map Inr []" by simp
  then show ?case by blast
next
  case (Cons u us)
  show ?case
  proof (cases "requests_get env h u 10")
    case (Inl e)
    then have "0 < length (u # us) \<and> replies env h (take 0 (u # us)) = map Inr []
        \<and> requests_get env (h @ get_log (take 0 (u # us))) ((u # us) ! 0) 10 = Inl e"
      by simp
    then show ?thesis by blast
  next
    case (Inr r)
    from Cons.IH [of "h @ [Get u 10]"] show ?thesis
    proof (elim disjE exE conjE)
      fix rs assume "replies env (h @ [Get u 10]) us = map Inr rs"
      with Inr have "replies env h (u # us) = map Inr (r # rs)" by simp
      then show ?thesis by blast
    next
      fix i rs e
      assume i: "i < length us"
        and rs: "replies env (h @ [Get u 10]) (take i us) = map Inr rs"
        and e: "requests_get env ((h @ [Get u 10]) @ get_log (take i us)) (us ! i) 10 = Inl e"
      from i rs e Inr
      have "Suc i < length (u # us) \<and> replies env h (take (Suc i) (u # us)) = map Inr (r # rs)
          \<and> requests_get env (h @ get_log (take (Suc i) (u # us))) ((u # us) ! Suc i) 10 = Inl e"
        by simp
      then show ?thesis by blast
    qed
  qed
qed

subsection \<open>The generation request\<close>

lemma generate_visual_Inr:
  "images_generate env (calls s) (request_kwargs (self s) d) = Inr responses \<Longrightarrow>
     generate_visual env d s
       = (Inr (map url responses), log_call (Generate (request_kwargs (self s) d)) s)"
  by (simp add: generate_visual_def)

lemma generate_visual_Inl:
  "images_generate env (calls s) (request_kwargs (self s) d) = Inl e \<Longrightarrow>
     generate_visual env d s = (Inl e, log_call (Generate (request_kwargs (self s) d)) s)"
  by (simp add: generate_visual_def)

lemma snd_generate_visual:
  "snd (generate_visual env d s) = log_call (Generate (request_kwargs (self s) d)) s"
  by (simp add: generate_visual_def Let_def split: sum.splits)

lemma decoded_append [simp]: "decoded (es @ fs) = decoded es @ decoded fs"
  by (induction es rule: decoded.induct) simp_all

lemma decoded_get_log [simp]: "decoded (get_log us) = []"
  by (induction us) simp_all

subsection \<open>The whole call\<close>

lemma get_images_all_answered:
  assumes gen: "images_generate env (calls s) (request_kwargs (self s) d) = Inr responses"
    and got: "replies env (calls s @ [Generate (request_kwargs (self s) d)]) (map url responses)
                = map Inr resps"
  shows "get_images env d s =
     (case resps of
        [] \<Rightarrow> (Inl (IndexError ''list index out of range''),
               s\<lparr>calls := calls s @ [Generate (request_kwargs (self s) d)]
                             @ get_log (map url responses)\<rparr>)
      | r # _ \<Rightarrow> (Image_open env (content r),
               s\<lparr>calls := calls s @ [Generate (request_kwargs (self s) d)]
                             @ get_log (map url responses) @ [Open_image (content r)]\<rparr>))"
proof -
  let ?s1 = "log_call (Generate (request_kwargs (self s) d)) s"
  from got have "replies env (calls ?s1) (map url responses) = map Inr resps"
    by simp
  then have "fetch_loop env (map url responses) [] ?s1
      = (Inr ([] @ map content resps), ?s1\<lparr>calls := calls ?s1 @ get_log (map url responses)\<rparr>)"
    by (rule fetch_loop_all_answered)
  then show ?thesis
    by (cases resps) (simp_all add: get_images_def generate_visual_Inr [OF gen] log_call_def)
qed

lemma get_images_download_fails:
  assumes gen: "images_generate env (calls s) (request_kwargs (self s) d) = Inr responses"
    and k: "k < length responses"
    and got: "replies env (calls s @ [Generate (request_kwargs (self s) d)])
                (take k (map url responses)) = map Inr resps"
    and bad: "requests_get env
                (calls s @ [Generate (request_kwargs (self s) d)] @ get_log (take k (map url responses)))
                (url (responses ! k)) 10 = Inl e"
  shows "get_images env d s =
     (Inl e, s\<lparr>calls := calls s @ [Generate (request_kwargs (self s) d)]
                   @ get_log (take (Suc k) (map url responses))\<rparr>)"
proof -
  let ?s1 = "log_call (Generate (request_kwargs (self s) d)) s"
  from k have k': "k < length (map url responses)" by simp
  from got have got': "replies env (calls ?s1) (take k (map url responses)) = map Inr resps"
    by simp
  from bad k have bad': "requests_get env (calls ?s1 @ get_log (take k (map url responses)))
      (map url responses ! k) 10 = Inl e"
    by simp
  have "fetch_loop env (map url responses) [] ?s1
      = (Inl e, ?s1\<lparr>calls := calls ?s1 @ get_log (take (Suc k) (map url responses))\<rparr>)"
    by (rule fetch_loop_first_failure [OF k' got' bad'])
  then show ?thesis
    by (simp add: get_images_def generate_visual_Inr [OF gen] log_call_def)
qed

lemma get_images_generate_fails:
  "images_generate env (calls s) (request_kwargs (self s) d) = Inl e \<Longrightarrow>
     get_images env d s = (Inl e, s\<lparr>calls := calls s @ [Generate (request_kwargs (self s) d)]\<rparr>)"
  by (simp add: get_images_def generate_visual_Inl log_call_def)

lemma self_get_images: "self (snd (get_images env d s)) = self s"
proof (cases "generate_visual env d s")
  case (Pair res s1)
  then have s1: "s1 = log_call (Generate (request_kwargs (self s) d)) s"
    using snd_generate_visual [of env d s] by simp
  show ?thesis
  proof (cases res)
    case (Inl e)
    with Pair s1 show ?thesis by (simp add: get_images_def)
  next
    case (Inr urls)
    show ?thesis
    proof (cases "fetch_loop env urls [] s1")
      case inner: (Pair res2 s2)
      then have "self s2 = self s1"
        using self_fetch_loop [of env urls "[]" s1] by simp
      with Pair Inr inner s1 show ?thesis
        by (cases res2) (simp_all add: get_images_def split: list.splits)
    qed
  qed
qed

subsection \<open>The constructor\<close>

lemma ImageGenerator_init_Inr:
  "ImageGenerator_init m q k d = Inr g \<Longrightarrow>
     g = \<lparr>model = m, quality = q, n = k, dim = d\<rparr>
     \<and> d \<in> {''1024x1024'', ''1024x1792'', ''1792x1024''}"
  by (simp add: ImageGenerator_init_def split: if_splits)

section \<open>The claims\<close>

text \<open>
  C1.  When the generation service answers with the URLs \<open>u1..uN\<close> (\<open>N \<ge> 1\<close>), the
  download of \<open>u1\<close> returns the response \<open>r1\<close> and the other downloads return as
  well, \<^verbatim>\<open>get_images\<close> returns what decoding the payload of \<open>r1\<close> returns, whatever
  \<open>N\<close> is; and that payload is the only buffer the call hands to the decoder.
\<close>

theorem get_images_decodes_first_download:
  assumes "images_generate env (calls s) (request_kwargs (self s) d) = Inr (d1 # ds)"
    and "requests_get env (calls s @ [Generate (request_kwargs (self s) d)]) (url d1) 10 = Inr r1"
    and "replies env (calls s @ [Generate (request_kwargs (self s) d), Get (url d1) 10])
           (map url ds) = map Inr rs"
  shows "fst (get_images env d s) = Image_open env (content r1)
     \<and> decoded (calls (snd (get_images env d s))) = decoded (calls s) @ [content r1]"
proof -
  from assms(2,3)
  have "replies env (calls s @ [Generate (request_kwargs (self s) d)]) (map url (d1 # ds))
          = map Inr (r1 # rs)"
    by simp
  from get_images_all_answered [OF assms(1) this] show ?thesis
    by simp
qed

theorem get_images_decodes_first_download_witness:
  "images_generate mock_env (calls fresh) (request_kwargs (self fresh) ''A forest at sunset'')
     = Inr [\<lparr>url = image1\<rparr>, \<lparr>url = image2\<rparr>]
   \<and> requests_get mock_env
        (calls fresh @ [Generate (request_kwargs (self fresh) ''A forest at sunset'')])
        image1 10 = Inr \<lparr>status_code = 200, content = ''X''\<rparr>
   \<and> fst (get_images mock_env ''A forest at sunset'' fresh) = Inr ''decoded X''
   \<and> decoded (calls (snd (get_images mock_env ''A forest at sunset'' fresh))) = [''X'']"
proof -
  let ?d = "''A forest at sunset''"
  have h1: "images_generate mock_env (calls fresh) (request_kwargs (self fresh) ?d)
              = Inr (\<lparr>url = image1\<rparr> # [\<lparr>url = image2\<rparr>])"
    by (simp add: mock_env_def)
  have h2: "requests_get mock_env (calls fresh @ [Generate (request_kwargs (self fresh) ?d)])
              (url \<lparr>url = image1\<rparr>) 10 = Inr \<lparr>status_code = 200, content = ''X''\<rparr>"
    by (simp add: mock_env_def)
  have h3: "replies mock_env
              (calls fresh @ [Generate (request_kwargs (self fresh) ?d), Get (url \<lparr>url = image1\<rparr>) 10])
              (map url [\<lparr>url = image2\<rparr>])
              = map Inr [\<lparr>status_code = 404, content = ''Not Found''\<rparr>]"
    by (simp add: mock_env_def image1_def image2_def)
  have c: "fst (get_images mock_env ?d fresh)
             = Image_open mock_env (content \<lparr>status_code = 200, content = ''X''\<rparr>)
     \<and> decoded (calls (snd (get_images mock_env ?d fresh)))
           = decoded (calls fresh) @ [content \<lparr>status_code = 200, content = ''X''\<rparr>]"
    by (rule get_images_decodes_first_download [OF h1 h2 h3])
  have "Image_open mock_env ''X'' = Inr ''decoded X''"
    by (simp add: mock_env_def)
  moreover have "calls fresh = []"
    by (simp add: fresh_def)
  ultimately show ?thesis
    using h1 h2 c by simp
qed

text \<open>
  C2.  Whatever the model, the quality and the count are: with a \<^verbatim>\<open>dim\<close> that is none
  of the three literals the constructor raises \<^verbatim>\<open>ValueError\<close> (with the message of
  the source), and with one of the three it returns the object whose four attributes
  are the four arguments.
\<close>

theorem init_checks_dim_and_stores:
  "(d \<notin> {''1024x1024'', ''1024x1792'', ''1792x1024''} \<longrightarrow>
      ImageGenerator_init m q k d = Inl (ValueError dim_message))
   \<and> (d \<in> {''1024x1024'', ''1024x1792'', ''1792x1024''} \<longrightarrow>
      ImageGenerator_init m q k d = Inr \<lparr>model = m, quality = q, n = k, dim = d\<rparr>)"
  by (simp add: ImageGenerator_init_def)

theorem init_checks_dim_and_stores_witness:
  "ImageGenerator_init ''dall-e'' ''high'' 1 ''800x600'' = Inl (ValueError dim_message)
   \<and> ImageGenerator_init ''dall-e'' ''high'' 2 ''1024x1024''
       = Inr \<lparr>model = ''dall-e'', quality = ''high'', n = 2, dim = ''1024x1024''\<rparr>
   \<and> ImageGenerator_init ''dall-e-3'' ''hd'' 1 ''1024x1792''
       = Inr \<lparr>model = ''dall-e-3'', quality = ''hd'', n = 1, dim = ''1024x1792''\<rparr>
   \<and> ImageGenerator_init ''dall-e-3'' ''hd'' 1 ''1792x1024''
       = Inr \<lparr>model = ''dall-e-3'', quality = ''hd'', n = 1, dim = ''1792x1024''\<rparr>"
  using init_checks_dim_and_stores [of "''800x600''" "''dall-e''" "''high''" 1]
    init_checks_dim_and_stores [of "''1024x1024''" "''dall-e''" "''high''" 2]
    init_checks_dim_and_stores [of "''1024x1792''" "''dall-e-3''" "''hd''" 1]
    init_checks_dim_and_stores [of "''1792x1024''" "''dall-e-3''" "''hd''" 1]
  by simp

text \<open>
  C3.  When the generation service answers the request of \<^verbatim>\<open>generate_visual\<close> with
  the image descriptors \<open>responses\<close>, the method returns the list of their URLs:
  as many, and the \<open>i\<close>-th URL is the URL of the \<open>i\<close>-th descriptor.  Nothing is
  filtered, dropped or moved.
\<close>

theorem generate_visual_returns_urls_in_order:
  "images_generate env (calls s) (request_kwargs (self s) d) = Inr responses \<Longrightarrow>
     fst (generate_visual env d s) = Inr (map url responses)
     \<and> (\<forall>urls. fst (generate_visual env d s) = Inr urls \<longrightarrow>
           length urls = length responses
           \<and> (\<forall>i<length responses. urls ! i = url (responses ! i)))"
  by (simp add: generate_visual_Inr)

theorem generate_visual_returns_urls_in_order_witness:
  "images_generate mock_env (calls fresh) (request_kwargs (self fresh) ''A surreal forest landscape at sunset'')
     = Inr [\<lparr>url = image1\<rparr>, \<lparr>url = image2\<rparr>]
   \<and> fst (generate_visual mock_env ''A surreal forest landscape at sunset'' fresh)
       = Inr [''https://example.com/image1.png'', ''https://example.com/image2.png'']"
proof -
  let ?d = "''A surreal forest landscape at sunset''"
  have h: "images_generate mock_env (calls fresh) (request_kwargs (self fresh) ?d)
             = Inr [\<lparr>url = image1\<rparr>, \<lparr>url = image2\<rparr>]"
    by (simp add: mock_env_def)
  from generate_visual_returns_urls_in_order [OF h]
  have "fst (generate_visual mock_env ?d fresh) = Inr (map url [\<lparr>url = image1\<rparr>, \<lparr>url = image2\<rparr>])"
    by (rule conjunct1)
  with h show ?thesis
    by (simp add: image1_def image2_def)
qed

text \<open>
  C4.  For a generator built by the constructor from \<open>m\<close>, \<open>q\<close>, \<open>k\<close> and \<open>dd\<close>,
  \<^verbatim>\<open>generate_visual\<close> asks the generation service once.  What it returns is what the
  service answers, at the log before the call, to the request whose prompt is the fixed
  sentence followed by the description and whose model, size, quality and \<^verbatim>\<open>n\<close> are
  \<open>m\<close>, \<open>dd\<close>, \<open>q\<close> and \<open>k\<close>: the URLs of the answer, or the error raised.  The
  log grows by that one request, whether the service answers or raises.
\<close>

theorem generate_visual_single_request:
  assumes "ImageGenerator_init m q k dd = Inr (self s)"
  shows "generate_visual env d s
       = (case images_generate env (calls s)
                 \<lparr>kw_model = m,
                  kw_prompt = ''Create a visual following this description: '' @ d,
                  kw_size = dd,
                  kw_quality = q,
                  kw_n = k\<rparr> of
            Inl e \<Rightarrow> Inl e
          | Inr responses \<Rightarrow> Inr (map url responses),
          s\<lparr>calls := calls s @ [Generate \<lparr>kw_model = m,
                              kw_prompt = ''Create a visual following this description: '' @ d,
                              kw_size = dd,
                              kw_quality = q,
                              kw_n = k\<rparr>]\<rparr>)"
proof -
  from ImageGenerator_init_Inr [OF assms]
  have "self s = \<lparr>model = m, quality = q, n = k, dim = dd\<rparr>"
    by (rule conjunct1)
  then show ?thesis
    by (simp add: generate_visual_def request_kwargs_def log_call_def split: sum.splits)
qed

theorem generate_visual_single_request_witness:
  "ImageGenerator_init ''dall-e'' ''high'' 2 ''1024x1024'' = Inr (self fresh)
   \<and> generate_visual mock_env_strict ''A futuristic cityscape'' fresh
       = (Inr [image1, image2],
          fresh\<lparr>calls := [Generate \<lparr>kw_model = ''dall-e'',
                    kw_prompt = ''Create a visual following this description: A futuristic cityscape'',
                    kw_size = ''1024x1024'',
                    kw_quality = ''high'',
                    kw_n = 2\<rparr>]\<rparr>)
   \<and> generate_visual mock_env_strict ''A futuristic city'' fresh
       = (Inl (LibraryError ''BadRequestError''),
          fresh\<lparr>calls := [Generate \<lparr>kw_model = ''dall-e'',
                    kw_prompt = ''Create a visual following this description: A futuristic city'',
                    kw_size = ''1024x1024'',
                    kw_quality = ''high'',
                    kw_n = 2\<rparr>]\<rparr>)"
proof -
  have h: "ImageGenerator_init ''dall-e'' ''high'' 2 ''1024x1024'' = Inr (self fresh)"
    by (simp add: ImageGenerator_init_def fresh_def generator_def)
  have f: "calls fresh = []"
    by (simp add: fresh_def)
  from generate_visual_single_request [OF h, of mock_env_strict "''A futuristic cityscape''"] f
  have a: "generate_visual mock_env_strict ''A futuristic cityscape'' fresh
       = (Inr [image1, image2],
          fresh\<lparr>calls := [Generate \<lparr>kw_model = ''dall-e'',
                    kw_prompt = ''Create a visual following this description: A futuristic cityscape'',
                    kw_size = ''1024x1024'',
                    kw_quality = ''high'',
                    kw_n = 2\<rparr>]\<rparr>)"
    by (simp add: mock_env_strict_def)
  from generate_visual_single_request [OF h, of mock_env_strict "''A futuristic city''"] f
  have b: "generate_visual mock_env_strict ''A futuristic city'' fresh
       = (Inl (LibraryError ''BadRequestError''),
          fresh\<lparr>calls := [Generate \<lparr>kw_model = ''dall-e'',
                    kw_prompt = ''Create a visual following this description: A futuristic city'',
                    kw_size = ''1024x1024'',
                    kw_quality = ''high'',
                    kw_n = 2\<rparr>]\<rparr>)"
    by (simp add: mock_env_strict_def)
  from h a b show ?thesis by blast
qed

text \<open>
  C5.  \<^verbatim>\<open>get_image_from_url\<close> makes one request, for the given URL with \<^verbatim>\<open>timeout\<close> 10.
  If the request returns a response, the method returns its payload \<open>B\<close> whatever the
  status code \<open>c\<close> is; if it raises (a time-out, for one), the method raises the same
  error.
\<close>

theorem get_image_from_url_returns_content:
  "(requests_get env (calls s) u 10 = Inr \<lparr>status_code = c, content = B\<rparr> \<longrightarrow>
      get_image_from_url env u s = (Inr B, s\<lparr>calls := calls s @ [Get u 10]\<rparr>))
   \<and> (requests_get env (calls s) u 10 = Inl e \<longrightarrow>
      get_image_from_url env u s = (Inl e, s\<lparr>calls := calls s @ [Get u 10]\<rparr>))"
  by (simp add: get_image_from_url_def log_call_def)

theorem get_image_from_url_returns_content_witness:
  "get_image_from_url mock_env ''https://example.com/image.png'' fresh
     = (Inr ''Not Found'', fresh\<lparr>calls := [Get ''https://example.com/image.png'' 10]\<rparr>)
   \<and> get_image_from_url mock_env_host_down ''https://example.com/image.png'' fresh
     = (Inl Timeout, fresh\<lparr>calls := [Get ''https://example.com/image.png'' 10]\<rparr>)"
proof -
  let ?u = "''https://example.com/image.png''"
  have ok: "requests_get mock_env (calls fresh) ?u 10
              = Inr \<lparr>status_code = 404, content = ''Not Found''\<rparr>"
    by (simp add: mock_env_def image1_def)
  have late: "requests_get mock_env_host_down (calls fresh) ?u 10 = Inl Timeout"
    by (simp add: mock_env_host_down_def image1_def)
  have "calls fresh = []"
    by (simp add: fresh_def)
  with get_image_from_url_returns_content [of mock_env fresh ?u 404 "''Not Found''" Timeout]
    get_image_from_url_returns_content [of mock_env_host_down fresh ?u 0 "[]" Timeout]
    ok late
  show ?thesis by simp
qed

text \<open>
  C6.  With a \<^verbatim>\<open>dim\<close> that is none of the three literals the constructor raises
  \<^verbatim>\<open>ValueError\<close>, whatever the model, the quality and the count are, and a run of the
  application with such a configuration ends with that error and an empty log: neither
  the generation service nor an image host is ever called, whatever the users submit.
\<close>

theorem invalid_dim_raises_before_any_call:
  "d \<notin> {''1024x1024'', ''1024x1792'', ''1792x1024''} \<Longrightarrow>
     ImageGenerator_init m q k d = Inl (ValueError dim_message)
     \<and> main env \<lparr>n_image = k, image_dim = d, image_model = m, image_quality = q\<rparr> submitted
         = (Inl (ValueError dim_message), [])"
  by (simp add: main_def ImageGenerator_init_def)

theorem invalid_dim_raises_before_any_call_witness:
  "''800x600'' \<notin> {''1024x1024'', ''1024x1792'', ''1792x1024''}
   \<and> ImageGenerator_init ''dall-e'' ''high'' 1 ''800x600'' = Inl (ValueError dim_message)
   \<and> main mock_env
        \<lparr>n_image = 1, image_dim = ''800x600'', image_model = ''dall-e'', image_quality = ''high''\<rparr>
        [''A forest at sunset'', ''A futuristic cityscape'']
       = (Inl (ValueError dim_message), [])"
proof -
  have h: "''800x600'' \<notin> {''1024x1024'', ''1024x1792'', ''1792x1024''}"
    by simp
  from invalid_dim_raises_before_any_call [OF h, of "''dall-e''" "''high''" 1 mock_env
      "[''A forest at sunset'', ''A futuristic cityscape'']"] h
  show ?thesis by simp
qed

text \<open>
  C7.  Let the generation service answer \<^verbatim>\<open>get_images\<close> with the descriptors
  \<open>responses\<close>.  The answer of the image host for the URL at position \<open>i\<close> is its
  answer to one request for that URL, with \<^verbatim>\<open>timeout\<close> 10, made after the requests for
  the URLs before it.  If the host answers every URL, the call makes the generation
  request, one download for each URL in the order of the answer and then the decoding
  of the first buffer, and returns what the decoding returns.  If the download at
  position \<open>j\<close> is the first that raises, the call makes the downloads up to that one,
  none after it, and raises its error: so the result depends on the answer to every
  URL, not on the first alone.  One of the two is always the case.
\<close>

theorem get_images_downloads_every_url_in_order:
  assumes "images_generate env (calls s) (request_kwargs (self s) d) = Inr responses"
  shows
   "(\<forall>i<length responses.
        replies env (calls s @ [Generate (request_kwargs (self s) d)]) (map url responses) ! i
          = requests_get env
              (calls s @ [Generate (request_kwargs (self s) d)]
                 @ map (\<lambda>u. Get u 10) (take i (map url responses)))
              (url (responses ! i)) 10)
    \<and> (replies env (calls s @ [Generate (request_kwargs (self s) d)]) (map url responses)
          = map Inr resps \<longrightarrow>
        get_images env d s
          = (case resps of
               [] \<Rightarrow> Inl (IndexError ''list index out of range'')
             | r # _ \<Rightarrow> Image_open env (content r),
             s\<lparr>calls := calls s @ [Generate (request_kwargs (self s) d)]
                @ map (\<lambda>u. Get u 10) (map url responses)
                @ (case resps of [] \<Rightarrow> [] | r # _ \<Rightarrow> [Open_image (content r)])\<rparr>))
    \<and> (j < length responses
        \<and> replies env (calls s @ [Generate (request_kwargs (self s) d)])
              (take j (map url responses)) = map Inr resps
        \<and> requests_get env
              (calls s @ [Generate (request_kwargs (self s) d)]
                 @ map (\<lambda>u. Get u 10) (take j (map url responses)))
              (url (responses ! j)) 10 = Inl e \<longrightarrow>
        get_images env d s
          = (Inl e, s\<lparr>calls := calls s @ [Generate (request_kwargs (self s) d)]
                       @ map (\<lambda>u. Get u 10) (take (Suc j) (map url responses))\<rparr>))
    \<and> ((\<exists>rs. replies env (calls s @ [Generate (request_kwargs (self s) d)])
                (map url responses) = map Inr rs)
        \<or> (\<exists>i rs e'. i < length responses
              \<and> replies env (calls s @ [Generate (request_kwargs (self s) d)])
                    (take i (map url responses)) = map Inr rs
              \<and> requests_get env
                    (calls s @ [Generate (request_kwargs (self s) d)]
                       @ map (\<lambda>u. Get u 10) (take i (map url responses)))
                    (url (responses ! i)) 10 = Inl e'))"
    (is "?each \<and> ?all \<and> ?fail \<and> ?total")
proof -
  let ?g = "Generate (request_kwargs (self s) d)"
  let ?h = "calls s @ [?g]"
  let ?urls = "map url responses"
  have each: ?each
  proof (intro allI impI)
    fix i assume i: "i < length responses"
    then have "i < length ?urls" by simp
    from replies_nth [OF this, of env ?h] i
    show "replies env ?h ?urls ! i
          = requests_get env (calls s @ [?g] @ map (\<lambda>u. Get u 10) (take i ?urls))
              (url (responses ! i)) 10"
      by (simp add: get_log_def)
  qed
  have all: ?all
  proof
    assume "replies env ?h ?urls = map Inr resps"
    from get_images_all_answered [OF assms this] show "get_images env d s
          = (case resps of
               [] \<Rightarrow> Inl (IndexError ''list index out of range'')
             | r # _ \<Rightarrow> Image_open env (content r),
             s\<lparr>calls := calls s @ [?g] @ map (\<lambda>u. Get u 10) ?urls
                @ (case resps of [] \<Rightarrow> [] | r # _ \<Rightarrow> [Open_image (content r)])\<rparr>)"
      by (cases resps) (simp_all add: get_log_def)
  qed
  have fail: ?fail
  proof
    assume a: "j < length responses
        \<and> replies env ?h (take j ?urls) = map Inr resps
        \<and> requests_get env (calls s @ [?g] @ map (\<lambda>u. Get u 10) (take j ?urls))
              (url (responses ! j)) 10 = Inl e"
    then have "requests_get env (calls s @ [?g] @ get_log (take j ?urls))
                 (url (responses ! j)) 10 = Inl e"
      by (simp add: get_log_def)
    with a assms have "get_images env d s
        = (Inl e, s\<lparr>calls := calls s @ [?g] @ get_log (take (Suc j) ?urls)\<rparr>)"
      by (intro get_images_download_fails) simp_all
    then show "get_images env d s
        = (Inl e, s\<lparr>calls := calls s @ [?g] @ map (\<lambda>u. Get u 10) (take (Suc j) ?urls)\<rparr>)"
      by (simp add: get_log_def)
  qed
  have total: ?total
    using replies_cases [of env ?h ?urls]
  proof (elim disjE exE conjE)
    fix rs assume "replies env ?h ?urls = map Inr rs"
    then show ?thesis by blast
  next
    fix i rs e'
    assume "i < length ?urls" and "replies env ?h (take i ?urls) = map Inr rs"
      and "requests_get env (?h @ get_log (take i ?urls)) (?urls ! i) 10 = Inl e'"
    then have "i < length responses
        \<and> replies env ?h (take i ?urls) = map Inr rs
        \<and> requests_get env (calls s @ [?g] @ map (\<lambda>u. Get u 10) (take i ?urls))
              (url (responses ! i)) 10 = Inl e'"
      by (simp add: get_log_def)
    then show ?thesis by blast
  qed
  from each all fail total show ?thesis by blast
qed

theorem get_images_downloads_every_url_in_order_witness:
  "get_images mock_env ''A futuristic cityscape'' fresh
     = (Inr ''decoded X'',
        fresh\<lparr>calls := [Generate (request_kwargs generator ''A futuristic cityscape''),
                         Get image1 10, Get image2 10, Open_image ''X'']\<rparr>)
   \<and> get_images mock_env_host_down ''A futuristic cityscape'' fresh
     = (Inl Timeout,
        fresh\<lparr>calls := [Generate (request_kwargs generator ''A futuristic cityscape''),
                         Get image1 10, Get image2 10]\<rparr>)"
proof -
  let ?d = "''A futuristic cityscape''"
  let ?rs = "[\<lparr>url = image1\<rparr>, \<lparr>url = image2\<rparr>]"
  have f: "calls fresh = []" "self fresh = generator"
    by (simp_all add: fresh_def)
  have gen: "images_generate mock_env (calls fresh) (request_kwargs (self fresh) ?d) = Inr ?rs"
    by (simp add: mock_env_def)
  have every: "replies mock_env (calls fresh @ [Generate (request_kwargs (self fresh) ?d)])
              (map url ?rs)
              = map Inr [\<lparr>status_code = 200, content = ''X''\<rparr>,
                         \<lparr>status_code = 404, content = ''Not Found''\<rparr>]"
    by (simp add: mock_env_def image1_def image2_def)
  have dec: "Image_open mock_env ''X'' = Inr ''decoded X''"
    by (simp add: mock_env_def)
  have gen': "images_generate mock_env_host_down (calls fresh) (request_kwargs (self fresh) ?d)
               = Inr ?rs"
    by (simp add: mock_env_host_down_def mock_env_def)
  have first: "replies mock_env_host_down
                 (calls fresh @ [Generate (request_kwargs (self fresh) ?d)])
                 (take 1 (map url ?rs)) = map Inr [\<lparr>status_code = 200, content = ''X''\<rparr>]"
    by (simp add: mock_env_host_down_def)
  have late: "requests_get mock_env_host_down
                 (calls fresh @ [Generate (request_kwargs (self fresh) ?d)]
                    @ map (\<lambda>u. Get u 10) (take 1 (map url ?rs)))
                 (url (?rs ! 1)) 10 = Inl Timeout"
    by (simp add: mock_env_host_down_def image1_def image2_def)
  from get_images_downloads_every_url_in_order [OF gen,
      of "[\<lparr>status_code = 200, content = ''X''\<rparr>, \<lparr>status_code = 404, content = ''Not Found''\<rparr>]"
         0 Timeout]
    every dec f
  have a: "get_images mock_env ?d fresh
     = (Inr ''decoded X'',
        fresh\<lparr>calls := [Generate (request_kwargs generator ?d),
                         Get image1 10, Get image2 10, Open_image ''X'']\<rparr>)"
    by simp
  from get_images_downloads_every_url_in_order [OF gen', of "[\<lparr>status_code = 200, content = ''X''\<rparr>]" 1 Timeout]
    first late f
  have b: "get_images mock_env_host_down ?d fresh
     = (Inl Timeout,
        fresh\<lparr>calls := [Generate (request_kwargs generator ?d), Get image1 10, Get image2 10]\<rparr>)"
    by simp
  from a b show ?thesis by blast
qed

text \<open>
  C8.  If the generation service raises \<open>e\<close>, \<^verbatim>\<open>get_images\<close> raises \<open>e\<close> after that
  one call.  If the service answers and the download of the URL at position \<open>j\<close> is
  the first to raise, with \<open>e\<close>, \<^verbatim>\<open>get_images\<close> raises \<open>e\<close> after the generation
  request and the downloads up to that one: nothing is asked again, nothing is asked
  after it.  In every case the generator object is the same after the call as before.
\<close>

theorem get_images_errors_propagate:
  "(images_generate env (calls s) (request_kwargs (self s) d) = Inl e \<longrightarrow>
      get_images env d s
        = (Inl e, s\<lparr>calls := calls s @ [Generate (request_kwargs (self s) d)]\<rparr>))
   \<and> (images_generate env (calls s) (request_kwargs (self s) d) = Inr responses
        \<and> j < length responses
        \<and> replies env (calls s @ [Generate (request_kwargs (self s) d)])
              (take j (map url responses)) = map Inr resps
        \<and> requests_get env
              (calls s @ [Generate (request_kwargs (self s) d)]
                 @ map (\<lambda>u. Get u 10) (take j (map url responses)))
              (url (responses ! j)) 10 = Inl e \<longrightarrow>
      get_images env d s
        = (Inl e, s\<lparr>calls := calls s @ [Generate (request_kwargs (self s) d)]
                       @ map (\<lambda>u. Get u 10) (take (Suc j) (map url responses))\<rparr>))
   \<and> self (snd (get_images env d s)) = self s"
proof (intro conjI impI)
  assume "images_generate env (calls s) (request_kwargs (self s) d) = Inl e"
  then show "get_images env d s
        = (Inl e, s\<lparr>calls := calls s @ [Generate (request_kwargs (self s) d)]\<rparr>)"
    by (rule get_images_generate_fails)
next
  assume a: "images_generate env (calls s) (request_kwargs (self s) d) = Inr responses
        \<and> j < length responses
        \<and> replies env (calls s @ [Generate (request_kwargs (self s) d)])
              (take j (map url responses)) = map Inr resps
        \<and> requests_get env
              (calls s @ [Generate (request_kwargs (self s) d)]
                 @ map (\<lambda>u. Get u 10) (take j (map url responses)))
              (url (responses ! j)) 10 = Inl e"
  then have "requests_get env
              (calls s @ [Generate (request_kwargs (self s) d)]
                 @ get_log (take j (map url responses)))
              (url (responses ! j)) 10 = Inl e"
    by (simp add: get_log_def)
  with a have "get_images env d s
        = (Inl e, s\<lparr>calls := calls s @ [Generate (request_kwargs (self s) d)]
                       @ get_log (take (Suc j) (map url responses))\<rparr>)"
    by (intro get_images_download_fails) simp_all
  then show "get_images env d s
        = (Inl e, s\<lparr>calls := calls s @ [Generate (request_kwargs (self s) d)]
                       @ map (\<lambda>u. Get u 10) (take (Suc j) (map url responses))\<rparr>)"
    by (simp add: get_log_def)
next
  show "self (snd (get_images env d s)) = self s"
    by (rule self_get_images)
qed

theorem get_images_errors_propagate_witness:
  "get_images mock_env_api_down ''A forest at sunset'' fresh
     = (Inl (LibraryError ''APIConnectionError''),
        fresh\<lparr>calls := [Generate (request_kwargs generator ''A forest at sunset'')]\<rparr>)
   \<and> get_images mock_env_host_down ''A forest at sunset'' fresh
     = (Inl Timeout,
        fresh\<lparr>calls := [Generate (request_kwargs generator ''A forest at sunset''),
                         Get image1 10, Get image2 10]\<rparr>)
   \<and> self (snd (get_images mock_env_host_down ''A forest at sunset'' fresh)) = generator"
proof -
  let ?d = "''A forest at sunset''"
  let ?rs = "[\<lparr>url = image1\<rparr>, \<lparr>url = image2\<rparr>]"
  have f: "calls fresh = []" "self fresh = generator"
    by (simp_all add: fresh_def)
  have down: "images_generate mock_env_api_down (calls fresh) (request_kwargs (self fresh) ?d)
                = Inl (LibraryError ''APIConnectionError'')"
    by (simp add: mock_env_api_down_def)
  have gen: "images_generate mock_env_host_down (calls fresh) (request_kwargs (self fresh) ?d)
               = Inr ?rs"
    by (simp add: mock_env_host_down_def mock_env_def)
  have first: "replies mock_env_host_down
                 (calls fresh @ [Generate (request_kwargs (self fresh) ?d)])
                 (take 1 (map url ?rs)) = map Inr [\<lparr>status_code = 200, content = ''X''\<rparr>]"
    by (simp add: mock_env_host_down_def)
  have late: "requests_get mock_env_host_down
                 (calls fresh @ [Generate (request_kwargs (self fresh) ?d)]
                    @ map (\<lambda>u. Get u 10) (take 1 (map url ?rs)))
                 (url (?rs ! 1)) 10 = Inl Timeout"
    by (simp add: mock_env_host_down_def image1_def image2_def)
  from get_images_errors_propagate [of mock_env_api_down fresh ?d
      "LibraryError ''APIConnectionError''" "[]" 0 "[]"] down f
  have a: "get_images mock_env_api_down ?d fresh
     = (Inl (LibraryError ''APIConnectionError''),
        fresh\<lparr>calls := [Generate (request_kwargs generator ?d)]\<rparr>)"
    by simp
  from get_images_errors_propagate [of mock_env_host_down fresh ?d Timeout ?rs 1
      "[\<lparr>status_code = 200, content = ''X''\<rparr>]"] gen first late f
  have b: "get_images mock_env_host_down ?d fresh
     = (Inl Timeout,
        fresh\<lparr>calls := [Generate (request_kwargs generator ?d), Get image1 10, Get image2 10]\<rparr>)
     \<and> self (snd (get_images mock_env_host_down ?d fresh)) = generator"
    by simp
  from a b show ?thesis by blast
qed

text \<open>
  C9.  The constructor does not look at the count.  It accepts the count 0 with an
  allowed \<^verbatim>\<open>dim\<close> and stores it, so a generator need not have a positive count.
\<close>

theorem init_accepts_count_zero:
  "ImageGenerator_init ''dall-e'' ''high'' 0 ''1024x1024''
     = Inr \<lparr>model = ''dall-e'', quality = ''high'', n = 0, dim = ''1024x1024''\<rparr>
   \<and> \<not> 1 \<le> n \<lparr>model = ''dall-e'', quality = ''high'', n = 0, dim = ''1024x1024''\<rparr>"
  by (simp add: ImageGenerator_init_def)

text \<open>
  C9, as the code has it.  A generator that was constructed holds the count it was
  given, and with one of the three allowed \<^verbatim>\<open>dim\<close> the constructor succeeds for every
  integer count.
\<close>

theorem init_stores_count_unchecked:
  "(ImageGenerator_init m q k d = Inr g \<longrightarrow> n g = k)
   \<and> (d \<in> {''1024x1024'', ''1024x1792'', ''1792x1024''} \<longrightarrow>
        (\<exists>g. ImageGenerator_init m q k d = Inr g \<and> n g = k))"
  by (auto simp add: ImageGenerator_init_def split: if_splits)

theorem init_stores_count_unchecked_witness:
  "ImageGenerator_init ''dall-e'' ''high'' (- 1) ''1024x1024''
     = Inr \<lparr>model = ''dall-e'', quality = ''high'', n = - 1, dim = ''1024x1024''\<rparr>
   \<and> n \<lparr>model = ''dall-e'', quality = ''high'', n = - 1, dim = ''1024x1024''\<rparr> = - 1
   \<and> (\<exists>g. ImageGenerator_init ''dall-e'' ''high'' 2 ''1024x1024'' = Inr g \<and> n g = 2)"
proof -
  have h: "ImageGenerator_init ''dall-e'' ''high'' (- 1) ''1024x1024''
     = Inr \<lparr>model = ''dall-e'', quality = ''high'', n = - 1, dim = ''1024x1024''\<rparr>"
    by (simp add: ImageGenerator_init_def)
  from init_stores_count_unchecked [of "''dall-e''" "''high''" "- 1" "''1024x1024''"
      "\<lparr>model = ''dall-e'', quality = ''high'', n = - 1, dim = ''1024x1024''\<rparr>"] h
  have a: "n \<lparr>model = ''dall-e'', quality = ''high'', n = - 1, dim = ''1024x1024''\<rparr> = - 1"
    by blast
  from init_stores_count_unchecked [of "''dall-e''" "''high''" 2 "''1024x1024''"]
  have b: "\<exists>g. ImageGenerator_init ''dall-e'' ''high'' 2 ''1024x1024'' = Inr g \<and> n g = 2"
    by simp
  from h a b show ?thesis by blast
qed

text \<open>
  C10.  If the generation service answers with an empty list of descriptors,
  \<^verbatim>\<open>get_images\<close> raises \<^verbatim>\<open>IndexError\<close> at \<^verbatim>\<open>images[0]\<close>; the generation request is its
  only call, nothing is downloaded or decoded.
\<close>

theorem get_images_no_image_index_error:
  "images_generate env (calls s) (request_kwargs (self s) d) = Inr [] \<Longrightarrow>
     get_images env d s
       = (Inl (IndexError ''list index out of range''),
          s\<lparr>calls := calls s @ [Generate (request_kwargs (self s) d)]\<rparr>)"
  using get_images_all_answered [of env s d "[]" "[]"] by simp

theorem get_images_no_image_index_error_witness:
  "images_generate mock_env_no_image (calls fresh) (request_kwargs (self fresh) ''A forest at sunset'')
     = Inr []
   \<and> get_images mock_env_no_image ''A forest at sunset'' fresh
     = (Inl (IndexError ''list index out of range''),
        fresh\<lparr>calls := [Generate (request_kwargs generator ''A forest at sunset'')]\<rparr>)"
proof -
  have h: "images_generate mock_env_no_image (calls fresh)
             (request_kwargs (self fresh) ''A forest at sunset'') = Inr []"
    by (simp add: mock_env_no_image_def)
  have f: "calls fresh = []" "self fresh = generator"
    by (simp_all add: fresh_def)
  from get_images_no_image_index_error [OF h] h f show ?thesis by simp
qed

end
